theory Spec2Isabelle
  imports Main
begin

section \<open>Go values used by scan.go\<close>

text \<open>
  A Go string is a sequence of bytes, so it is modelled as \<open>string\<close> (a list of 8-bit
  characters). A Go \<open>error\<close> value is either \<open>nil\<close> (\<open>None\<close>) or one of the errors
  below; \<open>Error\<close> is its \<open>Error()\<close> method. The two context errors are the values
  \<open>ctx.Err()\<close> can return.
\<close>

datatype error = DeadlineExceeded | Canceled | ErrorString string

fun Error :: "error \<Rightarrow> string" where
  "Error DeadlineExceeded = ''context deadline exceeded''"
| "Error Canceled = ''context canceled''"
| "Error (ErrorString s) = s"

text \<open>
  A run-time panic of the Go program is a value: every function of the source that can
  panic returns \<open>panic + 'a\<close>, with \<open>Inl\<close> the panic.
\<close>

datatype panic = IndexOutOfRange | SliceBoundsOutOfRange | NilPointerDereference

text \<open>\<open>xs[i]\<close> and \<open>xs[i:]\<close> with Go's bounds checks.\<close>

definition index :: "'a list \<Rightarrow> nat \<Rightarrow> panic + 'a" where
  "index xs i = (if i < length xs then Inr (xs ! i) else Inl IndexOutOfRange)"

definition sliceFrom :: "'a list \<Rightarrow> nat \<Rightarrow> panic + 'a list" where
  "sliceFrom xs i = (if i \<le> length xs then Inr (drop i xs) else Inl SliceBoundsOutOfRange)"

section \<open>Library functions called by the parsers\<close>

subsection \<open>Package strings\<close>

text \<open>
  \<open>strings.Split(s, sep)\<close> for a separator of one byte, which is the only way the source
  calls it (newline, colon, comma): cut at every occurrence of the separator, so the
  result has one more element than \<open>s\<close> has separators, and is never empty.
\<close>

function Split :: "string \<Rightarrow> char \<Rightarrow> string list" where
  "Split s sep =
     (case dropWhile (\<lambda>c. c \<noteq> sep) s of
        [] \<Rightarrow> [s]
      | _ # rest \<Rightarrow> takeWhile (\<lambda>c. c \<noteq> sep) s # Split rest sep)"
  by pat_completeness auto
termination
proof (relation "measure (\<lambda>(s, sep). length s)")
  show "wf (measure (\<lambda>(s, sep). length s))" by simp
next
  fix s :: string and sep x rest
  assume "dropWhile (\<lambda>c. c \<noteq> sep) s = x # rest"
  then have "length rest < length (dropWhile (\<lambda>c. c \<noteq> sep) s)" by simp
  also have "\<dots> \<le> length s" by (rule length_dropWhile_le)
  finally show "((rest, sep), (s, sep)) \<in> measure (\<lambda>(s, sep). length s)" by simp
qed

definition HasPrefix :: "string \<Rightarrow> string \<Rightarrow> bool" where
  "HasPrefix s pre = (length pre \<le> length s \<and> take (length pre) s = pre)"

text \<open>\<open>strings.Contains(s, substr)\<close>: \<open>substr\<close> occurs in \<open>s\<close> at some offset.\<close>

fun Contains :: "string \<Rightarrow> string \<Rightarrow> bool" where
  "Contains [] substr = (substr = [])"
| "Contains (c # cs) substr = (HasPrefix (c # cs) substr \<or> Contains cs substr)"

text \<open>
  The UTF-8 encodings of the code points for which \<open>unicode.IsSpace\<close> holds: the six
  ASCII ones, U+0085, U+00A0, U+1680, U+2000 to U+200A, U+2028, U+2029, U+202F, U+205F
  and U+3000.
\<close>

definition spaceEncodings :: "string list" where
  "spaceEncodings =
     [[CHR 0x09], [CHR 0x0A], [CHR 0x0B], [CHR 0x0C], [CHR 0x0D], [CHR 0x20],
      [CHR 0xC2, CHR 0x85], [CHR 0xC2, CHR 0xA0],
      [CHR 0xE1, CHR 0x9A, CHR 0x80],
      [CHR 0xE2, CHR 0x80, CHR 0x80], [CHR 0xE2, CHR 0x80, CHR 0x81],
      [CHR 0xE2, CHR 0x80, CHR 0x82], [CHR 0xE2, CHR 0x80, CHR 0x83],
      [CHR 0xE2, CHR 0x80, CHR 0x84], [CHR 0xE2, CHR 0x80, CHR 0x85],
      [CHR 0xE2, CHR 0x80, CHR 0x86], [CHR 0xE2, CHR 0x80, CHR 0x87],
      [CHR 0xE2, CHR 0x80, CHR 0x88], [CHR 0xE2, CHR 0x80, CHR 0x89],
      [CHR 0xE2, CHR 0x80, CHR 0x8A],
      [CHR 0xE2, CHR 0x80, CHR 0xA8], [CHR 0xE2, CHR 0x80, CHR 0xA9],
      [CHR 0xE2, CHR 0x80, CHR 0xAF],
      [CHR 0xE2, CHR 0x81, CHR 0x9F],
      [CHR 0xE3, CHR 0x80, CHR 0x80]]"

text \<open>
  Removing leading white space decodes one code point after the other and stops at the
  first that is not white space. A code point is white space exactly when the bytes at
  that position are one of the encodings above, so the loop strips such prefixes.
\<close>

function stripPrefixes :: "string list \<Rightarrow> string \<Rightarrow> string" where
  "stripPrefixes es s =
     (case find (\<lambda>e. e \<noteq> [] \<and> HasPrefix s e) es of
        None \<Rightarrow> s
      | Some e \<Rightarrow> stripPrefixes es (drop (length e) s))"
  by pat_completeness auto
termination
proof (relation "measure (\<lambda>(es, s). length s)")
  show "wf (measure (\<lambda>(es, s). length s))" by simp
next
  fix es :: "string list" and s e :: string
  assume "find (\<lambda>e. e \<noteq> [] \<and> HasPrefix s e) es = Some e"
  then have "e \<noteq> [] \<and> HasPrefix s e"
    by (auto simp: find_Some_iff)
  then have "e \<noteq> []" and "length e \<le> length s"
    by (simp_all add: HasPrefix_def)
  then show "((es, drop (length e) s), (es, s)) \<in> measure (\<lambda>(es, s). length s)"
    by (cases e) auto
qed

text \<open>
  \<open>strings.TrimSpace\<close>: leading white space is removed first, then trailing white space
  of what is left (the same loop, read from the end).
\<close>

definition TrimSpace :: "string \<Rightarrow> string" where
  "TrimSpace s =
     rev (stripPrefixes (map rev spaceEncodings) (rev (stripPrefixes spaceEncodings s)))"

subsection \<open>Package utils of go-plugin-utils\<close>

text \<open>
  \<open>utils.SliceContainsString(a, list)\<close>: some element of \<open>list\<close> contains \<open>a\<close> as a
  substring. \<open>utils.StringInSlice(a, list)\<close>: some element of \<open>list\<close> equals \<open>a\<close>.
\<close>

fun SliceContainsString :: "string \<Rightarrow> string list \<Rightarrow> bool" where
  "SliceContainsString a [] = False"
| "SliceContainsString a (b # bs) = (if Contains b a then True else SliceContainsString a bs)"

fun StringInSlice :: "string \<Rightarrow> string list \<Rightarrow> bool" where
  "StringInSlice a [] = False"
| "StringInSlice a (b # bs) = (if b = a then True else StringInSlice a bs)"

text \<open>
  \<open>utils.CamelCase(src)\<close>: the maximal runs of ASCII letters and digits of \<open>src\<close> (the
  matches of the regular expression \<open>[0-9A-Za-z]+\<close>), every run but the first with its
  first letter in upper case (\<open>bytes.Title\<close>), joined with nothing between them.
\<close>

definition isAlnum :: "char \<Rightarrow> bool" where
  "isAlnum c =
     (c \<in> set ''0123456789ABCDEFGHIJKLMNOPQRSTUVWXYZabcdefghijklmnopqrstuvwxyz'')"

definition toUpper :: "char \<Rightarrow> char" where
  "toUpper c =
     (case map_of (zip ''abcdefghijklmnopqrstuvwxyz'' ''ABCDEFGHIJKLMNOPQRSTUVWXYZ'') c of
        None \<Rightarrow> c
      | Some u \<Rightarrow> u)"

function FindAll :: "string \<Rightarrow> string list" where
  "FindAll s =
     (case dropWhile (\<lambda>c. \<not> isAlnum c) s of
        [] \<Rightarrow> []
      | c # cs \<Rightarrow> takeWhile isAlnum (c # cs) # FindAll (dropWhile isAlnum (c # cs)))"
  by pat_completeness auto
termination
proof (relation "measure length")
  show "wf (measure length)" by simp
next
  fix s :: string and c cs
  assume a: "dropWhile (\<lambda>c. \<not> isAlnum c) s = c # cs"
  then have "isAlnum c"
    using hd_dropWhile [of "\<lambda>c. \<not> isAlnum c" s] by simp
  then have "length (dropWhile isAlnum (c # cs)) \<le> length cs"
    by (simp add: length_dropWhile_le)
  also have "length cs < length (dropWhile (\<lambda>c. \<not> isAlnum c) s)"
    using a by simp
  also have "\<dots> \<le> length s" by (rule length_dropWhile_le)
  finally show "(dropWhile isAlnum (c # cs), s) \<in> measure length" by simp
qed

fun Title :: "string \<Rightarrow> string" where
  "Title [] = []"
| "Title (c # cs) = toUpper c # cs"

fun titleRest :: "string list \<Rightarrow> string list" where
  "titleRest [] = []"
| "titleRest (chunk # chunks) = chunk # map Title chunks"

definition CamelCase :: "string \<Rightarrow> string" where
  "CamelCase src = concat (titleRest (FindAll src))"

section \<open>The output parsers\<close>

text \<open>
  Each parser takes the raw output of its tool and the error of the invocation, as
  \<open>utils.RunCommand\<close> returns them. A \<open>nil\<close> slice and a \<open>nil\<close> map are the empty list
  and the empty map: the parsers and their callers only read them.
\<close>

definition ignoreTags :: "string list" where
  "ignoreTags =
     [''Directory'', ''File Name'', ''File Permissions'', ''File Modification Date/Time'']"

text \<open>The loop of \<open>ParseExiftoolOutput\<close> over the lines, \<open>datas\<close> being the map it fills.\<close>

fun exifLoop :: "(string \<rightharpoonup> string) \<Rightarrow> string list \<Rightarrow> panic + (string \<rightharpoonup> string)" where
  "exifLoop datas [] = Inr datas"
| "exifLoop datas (line # lines) =
     (let keyvalue = Split line CHR '':'' in
      if length keyvalue \<noteq> 2 then exifLoop datas lines
      else
        (case index keyvalue 0 of
           Inl p \<Rightarrow> Inl p
         | Inr k \<Rightarrow>
             if \<not> StringInSlice (TrimSpace k) ignoreTags then
               (case index keyvalue 1 of
                  Inl p \<Rightarrow> Inl p
                | Inr v \<Rightarrow> exifLoop (datas(TrimSpace (CamelCase k) \<mapsto> TrimSpace v)) lines)
             else exifLoop datas lines))"

definition ParseExiftoolOutput :: "string \<Rightarrow> error option \<Rightarrow> panic + (string \<rightharpoonup> string)" where
  "ParseExiftoolOutput exifout err =
     (case err of
        Some e \<Rightarrow> Inr [''error'' \<mapsto> Error e]
      | None \<Rightarrow>
          (let lines = Split exifout CHR 0x0A in
           if SliceContainsString ''File not found'' lines then Inr Map.empty
           else exifLoop Map.empty lines))"

definition ParseSsdeepOutput :: "string \<Rightarrow> error option \<Rightarrow> panic + string" where
  "ParseSsdeepOutput ssdout err =
     (case err of
        Some e \<Rightarrow> Inr (Error e)
      | None \<Rightarrow>
          (let lines = Split ssdout CHR 0x0A in
           if SliceContainsString ''No such file or directory'' lines then Inr []
           else
             (case index lines 1 of
                Inl p \<Rightarrow> Inl p
              | Inr line \<Rightarrow>
                  (case index (Split line CHR '','') 0 of
                     Inl p \<Rightarrow> Inl p
                   | Inr h \<Rightarrow> Inr (TrimSpace h)))))"

text \<open>The loop of \<open>ParseTRiDOutput\<close> over the lines that follow the banner.\<close>

fun tridLoop :: "string list \<Rightarrow> string list \<Rightarrow> string list" where
  "tridLoop keepLines [] = keepLines"
| "tridLoop keepLines (line # lines) =
     (if length (TrimSpace line) \<noteq> 0 then tridLoop (keepLines @ [TrimSpace line]) lines
      else tridLoop keepLines lines)"

definition ParseTRiDOutput :: "string \<Rightarrow> error option \<Rightarrow> panic + string list" where
  "ParseTRiDOutput tridout err =
     (case err of
        Some e \<Rightarrow> Inr [Error e]
      | None \<Rightarrow>
          (let lines = Split tridout CHR 0x0A in
           if SliceContainsString ''Error: found no file(s) to analyze!'' lines then Inr []
           else
             (case sliceFrom lines 6 of
                Inl p \<Rightarrow> Inl p
              | Inr rest \<Rightarrow> Inr (tridLoop [] rest))))"

text \<open>
  The part of a line before its first colon, and the part after it: the two elements of
  \<open>strings.Split(line, ":")\<close> when the line has exactly one colon.
\<close>

definition exifKey :: "string \<Rightarrow> string" where
  "exifKey line = takeWhile (\<lambda>c. c \<noteq> CHR '':'') line"

definition exifValue :: "string \<Rightarrow> string" where
  "exifValue line = drop 1 (dropWhile (\<lambda>c. c \<noteq> CHR '':'') line)"

section \<open>The report and the process-wide holder\<close>

record FileMagic =
  Mime :: string
  Description :: string

record FileInfo =
  Magic :: FileMagic
  SSDeep :: string
  TRiD :: "string list"
  Exiftool :: "string \<rightharpoonup> string"
  MarkDown :: string
  APKFile :: string

text \<open>The zero value of \<open>FileInfo\<close>: what the variable \<open>fi\<close> holds when the process starts.\<close>

definition zeroFileInfo :: FileInfo where
  "zeroFileInfo =
     \<lparr>Magic = \<lparr>Mime = [], Description = []\<rparr>, SSDeep = [], TRiD = [], Exiftool = Map.empty,
      MarkDown = [], APKFile = []\<rparr>"

section \<open>Magic detection\<close>

text \<open>
  \<open>GetFileMimeType\<close> and \<open>GetFileDescription\<close> are the same code but for the flags passed
  to \<open>magicmime.Open\<close> and the field of \<open>fi.Magic\<close> they assign; \<open>probe\<close> says which of the
  two runs. A \<open>pack\<close> is the struct the goroutine sends on the channel: the string
  \<open>magicmime.TypeByFile\<close> returned and its error.
\<close>

datatype probe = MimeProbe | DescriptionProbe

type_synonym pack = "string \<times> error option"

fun assign :: "probe \<Rightarrow> string \<Rightarrow> FileInfo \<Rightarrow> FileInfo" where
  "assign MimeProbe v f = f\<lparr>Magic := (Magic f)\<lparr>Mime := v\<rparr>\<rparr>"
| "assign DescriptionProbe v f = f\<lparr>Magic := (Magic f)\<lparr>Description := v\<rparr>\<rparr>"

text \<open>
  The case \<open>ok := <-c\<close> of the \<open>select\<close> statement: the error and the new value of \<open>fi\<close>.
\<close>

definition received :: "probe \<Rightarrow> pack \<Rightarrow> FileInfo \<Rightarrow> error option \<times> FileInfo" where
  "received p ok f =
     (case snd ok of
        Some e \<Rightarrow> (Some e, assign p (Error e) f)
      | None \<Rightarrow> (None, assign p (fst ok) f))"

subsection \<open>The two activities of one call, step by step\<close>

text \<open>
  One call runs two activities: the caller, and the goroutine it starts. The caller is
  at the \<open>go\<close> statement, at the \<open>select\<close>, at the \<open>\<open><-c\<close>\<close> of the case
  \<open>\<open><-ctx.Done()\<close>\<close>, or has returned an error, through the case recorded with it. The
  goroutine has not started, is about to call \<open>magicmime.Open\<close>, \<open>magicmime.TypeByFile\<close>,
  to send its pack, to run the deferred \<open>magicmime.Close\<close>, or has finished.
\<close>

datatype selectCase = CtxDone | Received

datatype caller = AtGo | AtSelect | AtWait | Returned selectCase "error option"

datatype worker = NotStarted | AtOpen | AtTypeByFile | AtSend pack | AtClose | Finished

text \<open>
  The channel \<open>c\<close> has capacity 1: \<open>chan\<close> is its slot. \<open>ctxErr\<close> is \<open>ctx.Err()\<close>, not
  \<open>nil\<close> exactly when \<open>ctx.Done()\<close> is closed. \<open>opens\<close> and \<open>closes\<close> count the calls of
  \<open>magicmime.Open\<close> that returned no error and the calls of \<open>magicmime.Close\<close>. \<open>holder\<close>
  is the variable \<open>fi\<close>. \<open>exited\<close>: \<open>utils.Assert\<close> has ended the process.
\<close>

record config =
  callerPc :: caller
  workerPc :: worker
  chan :: "pack option"
  ctxErr :: "error option"
  opens :: nat
  closes :: nat
  holder :: FileInfo
  exited :: bool

text \<open>What the detection library does in this call.\<close>

record library =
  openErr :: "error option"
  typeByFile :: pack

definition start :: "error option \<Rightarrow> FileInfo \<Rightarrow> config" where
  "start ctx f =
     \<lparr>callerPc = AtGo, workerPc = NotStarted, chan = None, ctxErr = ctx, opens = 0, closes = 0,
      holder = f, exited = False\<rparr>"

text \<open>The next step of the caller, if it can take one; at the \<open>select\<close> it may have two.\<close>

definition callerSteps :: "probe \<Rightarrow> config \<Rightarrow> config list" where
  "callerSteps p c =
     (case callerPc c of
        AtGo \<Rightarrow> [c\<lparr>callerPc := AtSelect, workerPc := AtOpen\<rparr>]
      | AtSelect \<Rightarrow>
          (if ctxErr c \<noteq> None then [c\<lparr>callerPc := AtWait\<rparr>] else []) @
          (case chan c of
             None \<Rightarrow> []
           | Some ok \<Rightarrow>
               [c\<lparr>chan := None, callerPc := Returned Received (fst (received p ok (holder c))),
                   holder := snd (received p ok (holder c))\<rparr>])
      | AtWait \<Rightarrow>
          (case chan c of
             None \<Rightarrow> []
           | Some ok \<Rightarrow> [c\<lparr>chan := None, callerPc := Returned CtxDone (ctxErr c)\<rparr>])
      | Returned sel err \<Rightarrow> [])"

text \<open>The next step of the goroutine, if it can take one.\<close>

definition workerSteps :: "library \<Rightarrow> config \<Rightarrow> config list" where
  "workerSteps lib c =
     (case workerPc c of
        NotStarted \<Rightarrow> []
      | AtOpen \<Rightarrow>
          (case openErr lib of
             Some e \<Rightarrow> [c\<lparr>exited := True\<rparr>]
           | None \<Rightarrow> [c\<lparr>workerPc := AtTypeByFile, opens := opens c + 1\<rparr>])
      | AtTypeByFile \<Rightarrow> [c\<lparr>workerPc := AtSend (typeByFile lib)\<rparr>]
      | AtSend ok \<Rightarrow>
          (case chan c of
             None \<Rightarrow> [c\<lparr>chan := Some ok, workerPc := AtClose\<rparr>]
           | Some _ \<Rightarrow> [])
      | AtClose \<Rightarrow> [c\<lparr>workerPc := Finished, closes := closes c + 1\<rparr>]
      | Finished \<Rightarrow> [])"

text \<open>The deadline passes: \<open>ctx.Done()\<close> is closed and \<open>ctx.Err()\<close> is set.\<close>

definition timerSteps :: "config \<Rightarrow> config list" where
  "timerSteps c = (if ctxErr c = None then [c\<lparr>ctxErr := Some DeadlineExceeded\<rparr>] else [])"

definition steps :: "probe \<Rightarrow> library \<Rightarrow> config \<Rightarrow> config list" where
  "steps p lib c = (if exited c then [] else callerSteps p c @ workerSteps lib c @ timerSteps c)"

text \<open>The configurations a call can be in, whatever the order the activities run in.\<close>

inductive reachable :: "probe \<Rightarrow> library \<Rightarrow> config \<Rightarrow> config \<Rightarrow> bool"
  for p :: probe and lib :: library and c0 :: config where
  reachable_start: "reachable p lib c0 c0"
| reachable_step: "reachable p lib c0 c \<Longrightarrow> c' \<in> set (steps p lib c) \<Longrightarrow> reachable p lib c0 c'"




subsection \<open>One call as a function of what happened in it\<close>

text \<open>
  For the code that calls them, \<open>GetFileMimeType\<close> and \<open>GetFileDescription\<close> are functions
  of the state of the process and of what happened during the call: what
  \<open>magicmime.TypeByFile\<close> returned, which case of the \<open>select\<close> ran, and whether the
  deadline has passed by the time the call returns.
\<close>

record magicEvent =
  result :: pack
  selected :: selectCase
  deadlinePassed :: bool

text \<open>
  A call made by the scan, for counting: a detection call, or a command run by
  \<open>utils.RunCommand\<close> with its arguments.
\<close>

datatype call = TypeByFile probe | Run "string list"


text \<open>
  The state of the process that scan.go reads and writes: the variable \<open>fi\<close>, \<open>ctx.Err()\<close>
  of the context of the scan under way, and the calls made so far.
\<close>

record process =
  fi :: FileInfo
  ctx :: "error option"
  calls :: "call list"

text \<open>
  What is outside the program: the \<open>n\<close>-th call of each detection function, the commands,
  the file system, the template of the Markdown table, and the operations of the HTTP
  handler on its temporary file and its response.
\<close>

record environment =
  magicmime :: "probe \<Rightarrow> nat \<Rightarrow> magicEvent"
  runCommand :: "string list \<Rightarrow> string \<times> error option"
  notExist :: "string \<Rightarrow> error option"
  template :: "FileInfo \<Rightarrow> string"
  tempFile :: "error + string"
  readAllErr :: "error option"
  writeErr :: "error option"
  closeErr :: "error option"
  encodeErr :: "error option"

text \<open>The number of calls of a detection function so far.\<close>

definition attempts :: "probe \<Rightarrow> process \<Rightarrow> nat" where
  "attempts p st = count_list (calls st) (TypeByFile p)"

definition initial :: process where
  "initial = \<lparr>fi = zeroFileInfo, ctx = None, calls = []\<rparr>"

text \<open>\<open>ctx.Err()\<close> after a call: once set it stays, and a closed \<open>ctx.Done()\<close> sets it.\<close>

definition elapse :: "magicEvent \<Rightarrow> error option \<Rightarrow> error option" where
  "elapse ev err =
     (case err of
        Some e \<Rightarrow> Some e
      | None \<Rightarrow> if selected ev = CtxDone \<or> deadlinePassed ev then Some DeadlineExceeded else None)"

definition magicCall :: "probe \<Rightarrow> environment \<Rightarrow> process \<Rightarrow> error option \<times> process" where
  "magicCall p env st =
     (let ev = magicmime env p (attempts p st);
          st' = st\<lparr>ctx := elapse ev (ctx st), calls := calls st @ [TypeByFile p]\<rparr>
      in case selected ev of
           CtxDone \<Rightarrow> (ctx st', st')
         | Received \<Rightarrow>
             (fst (received p (result ev) (fi st')), st'\<lparr>fi := snd (received p (result ev) (fi st'))\<rparr>))"

definition GetFileMimeType :: "environment \<Rightarrow> process \<Rightarrow> error option \<times> process" where
  "GetFileMimeType = magicCall MimeProbe"

definition GetFileDescription :: "environment \<Rightarrow> process \<Rightarrow> error option \<times> process" where
  "GetFileDescription = magicCall DescriptionProbe"

section \<open>The two scans\<close>

definition RunCommand ::
  "environment \<Rightarrow> string list \<Rightarrow> process \<Rightarrow> (string \<times> error option) \<times> process" where
  "RunCommand env args st = (runCommand env args, st\<lparr>calls := calls st @ [Run args]\<rparr>)"

text \<open>
  How a scan ends: with a panic, with the process ended by \<open>log.Fatal\<close> or
  \<open>utils.Assert\<close>, with the mime type printed, or with its report.
\<close>

datatype outcome = Panicked panic | Exited error | Printed string | Report FileInfo

text \<open>
  The composite literal \<open>FileInfo{...}\<close> of both scans. Its fields are evaluated in the
  order they are written, so a panic of a parser ends the evaluation there.
\<close>

definition assemble ::
  "environment \<Rightarrow> string \<Rightarrow> string \<Rightarrow> process \<Rightarrow> (panic + FileInfo) \<times> process" where
  "assemble env path apkJSON st =
     (let magic = Magic (fi st);
          (ss, st1) = RunCommand env [''ssdeep'', path] st
      in case ParseSsdeepOutput (fst ss) (snd ss) of
           Inl p \<Rightarrow> (Inl p, st1)
         | Inr ssdeep \<Rightarrow>
             (let (tr, st2) = RunCommand env [''trid'', path] st1
              in case ParseTRiDOutput (fst tr) (snd tr) of
                   Inl p \<Rightarrow> (Inl p, st2)
                 | Inr trid \<Rightarrow>
                     (let (ex, st3) = RunCommand env [''exiftool'', path] st2
                      in case ParseExiftoolOutput (fst ex) (snd ex) of
                           Inl p \<Rightarrow> (Inl p, st3)
                         | Inr exif \<Rightarrow>
                             (Inr \<lparr>Magic = magic, SSDeep = ssdeep, TRiD = trid,
                                   Exiftool = exif, MarkDown = [], APKFile = apkJSON\<rparr>,
                              st3))))"

text \<open>
  What both scans do after the detection: run the archive tool, end the process with
  \<open>log.Fatal\<close> when it fails, and build the report otherwise.
\<close>

definition gather :: "environment \<Rightarrow> string \<Rightarrow> process \<Rightarrow> outcome \<times> process" where
  "gather env path st =
     (let (apk, st1) = RunCommand env [''java'', ''-jar'', ''apkfile.jar'', path] st
      in case snd apk of
           Some e \<Rightarrow> (Exited e, st1)
         | None \<Rightarrow>
             (case assemble env path (fst apk) st1 of
                (Inl p, st2) \<Rightarrow> (Panicked p, st2)
              | (Inr fileInfo, st2) \<Rightarrow> (Report fileInfo, st2)))"

text \<open>
  The detection of the scan of the command line: each of the two calls is made again
  when it returned an error and \<open>ctx.Err()\<close> is \<open>nil\<close>.
\<close>

definition runLibmagic :: "environment \<Rightarrow> process \<Rightarrow> process" where
  "runLibmagic env st =
     (let (err, st1) = GetFileMimeType env st;
          st2 = (if err \<noteq> None \<and> ctx st1 = None then snd (GetFileMimeType env st1) else st1);
          (err', st3) = GetFileDescription env st2;
          st4 = (if err' \<noteq> None \<and> ctx st3 = None then snd (GetFileDescription env st3) else st3)
      in st4)"

text \<open>
  The scan of the command line (\<open>app.Action\<close>) once the path is known to exist and
  \<open>--mime\<close> is not set, up to the report with its Markdown table. What follows in the
  source hands the report to the database, the standard output or the webhook.
\<close>

definition scan :: "environment \<Rightarrow> string \<Rightarrow> process \<Rightarrow> outcome \<times> process" where
  "scan env path st =
     (case gather env path (runLibmagic env st) of
        (Report fileInfo, st') \<Rightarrow> (Report (fileInfo\<lparr>MarkDown := template env fileInfo\<rparr>), st')
      | (out, st') \<Rightarrow> (out, st'))"

text \<open>\<open>app.Action\<close>: \<open>args\<close> are the arguments of the command line, \<open>mime\<close> the flag.\<close>

definition Action :: "environment \<Rightarrow> bool \<Rightarrow> string list \<Rightarrow> process \<Rightarrow> outcome \<times> process" where
  "Action env mime args st =
     (case args of
        [] \<Rightarrow> (Exited (ErrorString ''Please supply a file to scan with malice/fileinfo''), st)
      | path # _ \<Rightarrow>
          (let st0 = st\<lparr>ctx := None\<rparr>
           in case notExist env path of
                Some e \<Rightarrow> (Exited e, st0)
              | None \<Rightarrow>
                  if mime then
                    (let (err, st1) = GetFileMimeType env st0
                     in (Printed (Mime (Magic (fi st1))), st1))
                  else scan env path st0))"

text \<open>
  The HTTP handler. \<open>FormFile\<close> of the request is the result of
  \<open>r.FormFile("malware")\<close>: an error, or the uploaded file (its content) and its header
  (the file name). The response: the status once written, the headers set, what was
  written to the body.
\<close>

record request =
  FormFile :: "error + string \<times> string"

datatype written = Text string | JSON FileInfo

record ResponseWriter =
  status :: "nat option"
  Header :: "string \<rightharpoonup> string"
  body :: "written list"

definition WriteHeader :: "nat \<Rightarrow> ResponseWriter \<Rightarrow> ResponseWriter" where
  "WriteHeader code w = (case status w of None \<Rightarrow> w\<lparr>status := Some code\<rparr> | Some _ \<Rightarrow> w)"

definition Write :: "written \<Rightarrow> ResponseWriter \<Rightarrow> ResponseWriter" where
  "Write x w = (let w' = WriteHeader 200 w in w'\<lparr>body := body w' @ [x]\<rparr>)"

definition StatusBadRequest :: nat where
  "StatusBadRequest = 400"

definition StatusOK :: nat where
  "StatusOK = 200"

text \<open>
  The handler after \<open>r.FormFile\<close>: \<open>file\<close> and \<open>header\<close> are \<open>None\<close> when they are \<open>nil\<close>.
  \<open>defer file.Close()\<close> evaluates the method of a \<open>nil\<close> interface value, and
  \<open>header.Filename\<close> reads through a \<open>nil\<close> pointer.
\<close>

definition webAvScanRest ::
  "environment \<Rightarrow> string option \<Rightarrow> string option \<Rightarrow> ResponseWriter \<Rightarrow> process
     \<Rightarrow> outcome \<times> ResponseWriter \<times> process" where
  "webAvScanRest env file header w st =
     (case file of
        None \<Rightarrow> (Panicked NilPointerDereference, w, st)
      | Some data \<Rightarrow>
     (case header of
        None \<Rightarrow> (Panicked NilPointerDereference, w, st)
      | Some filename \<Rightarrow>
     (case tempFile env of
        Inl e \<Rightarrow> (Exited e, w, st)
      | Inr path \<Rightarrow>
     (case readAllErr env of
        Some e \<Rightarrow> (Exited e, w, st)
      | None \<Rightarrow>
     (case writeErr env of
        Some e \<Rightarrow> (Exited e, w, st)
      | None \<Rightarrow>
     (case closeErr env of
        Some e \<Rightarrow> (Exited e, w, st)
      | None \<Rightarrow>
          (let st0 = st\<lparr>ctx := None\<rparr>;
               (err, st1) = GetFileMimeType env st0;
               (err', st2) = GetFileDescription env st1
           in case gather env path st2 of
                (Report fileInfo, st3) \<Rightarrow>
                  (let w1 = w\<lparr>Header := (Header w)(''Content-Type'' \<mapsto>
                                   ''application/json; charset=UTF-8'')\<rparr>;
                       w2 = WriteHeader StatusOK w1
                   in case encodeErr env of
                        Some e \<Rightarrow> (Exited e, w2, st3)
                      | None \<Rightarrow> (Report fileInfo, Write (JSON fileInfo) w2, st3))
              | (out, st3) \<Rightarrow> (out, w, st3))))))))"

definition webAvScan ::
  "environment \<Rightarrow> request \<Rightarrow> ResponseWriter \<Rightarrow> process
     \<Rightarrow> outcome \<times> ResponseWriter \<times> process" where
  "webAvScan env r w st =
     (case FormFile r of
        Inl err \<Rightarrow>
          webAvScanRest env None None
            (Write (Text ''Please supply a valid file to scan.\<newline>'') (WriteHeader StatusBadRequest w)) st
      | Inr (data, filename) \<Rightarrow> webAvScanRest env (Some data) (Some filename) w st)"

section \<open>What holds of every configuration of a call\<close>

text \<open>
  The handle of the detection library is open from the return of \<open>magicmime.Open\<close> to the
  deferred call of \<open>magicmime.Close\<close>; the goroutine has sent its pack once it is past the
  send; the caller is waiting for the pack at the \<open>select\<close> and at the \<open>\<open><-c\<close>\<close>.
\<close>

fun handleOpen :: "worker \<Rightarrow> bool" where
  "handleOpen AtTypeByFile = True"
| "handleOpen (AtSend ok) = True"
| "handleOpen AtClose = True"
| "handleOpen _ = False"

fun sent :: "worker \<Rightarrow> bool" where
  "sent AtClose = True"
| "sent Finished = True"
| "sent _ = False"

fun waiting :: "caller \<Rightarrow> bool" where
  "waiting AtSelect = True"
| "waiting AtWait = True"
| "waiting _ = False"

fun sends :: "worker \<Rightarrow> pack \<Rightarrow> bool" where
  "sends (AtSend ok) ok' = (ok = ok')"
| "sends _ ok' = True"

text \<open>
  What the caller has done to \<open>fi\<close>, and what it has returned, for a call that starts with
  \<open>fi = f\<close> and whose detection returns \<open>ok\<close>.
\<close>

fun callerOK :: "probe \<Rightarrow> pack \<Rightarrow> FileInfo \<Rightarrow> config \<Rightarrow> caller \<Rightarrow> bool" where
  "callerOK p ok f c AtGo = (holder c = f)"
| "callerOK p ok f c AtSelect = (holder c = f)"
| "callerOK p ok f c AtWait = (holder c = f \<and> ctxErr c \<noteq> None)"
| "callerOK p ok f c (Returned CtxDone r) =
     (sent (workerPc c) \<and> r = ctxErr c \<and> r \<noteq> None \<and> holder c = f)"
| "callerOK p ok f c (Returned Received r) =
     (sent (workerPc c) \<and> r = fst (received p ok f) \<and> holder c = snd (received p ok f))"

text \<open>
  The relation between the two activities, the channel, the counters and \<open>fi\<close>, for a call
  that starts with \<open>ctx.Err() = ctx0\<close> and \<open>fi = f\<close>.
\<close>

definition consistent ::
  "probe \<Rightarrow> library \<Rightarrow> error option \<Rightarrow> FileInfo \<Rightarrow> config \<Rightarrow> bool" where
  "consistent p lib ctx0 f c =
     ((callerPc c = AtGo) = (workerPc c = NotStarted)
      \<and> (ctxErr c = ctx0 \<or> ctx0 = None \<and> ctxErr c = Some DeadlineExceeded)
      \<and> opens c = closes c + (if handleOpen (workerPc c) then 1 else 0)
      \<and> closes c = (if workerPc c = Finished then 1 else 0)
      \<and> sends (workerPc c) (typeByFile lib)
      \<and> chan c = (if sent (workerPc c) \<and> waiting (callerPc c) then Some (typeByFile lib) else None)
      \<and> callerOK p (typeByFile lib) f c (callerPc c)
      \<and> (if exited c then workerPc c = AtOpen else True))"

text \<open>
  A run of a call under a schedule: each number chooses, among the steps the configuration
  can take, the one that is taken.
\<close>

fun run :: "probe \<Rightarrow> library \<Rightarrow> nat list \<Rightarrow> config \<Rightarrow> config option" where
  "run p lib [] c = Some c"
| "run p lib (i # sched) c =
     (if i < length (steps p lib c) then run p lib sched (steps p lib c ! i) else None)"

section \<open>Example environments\<close>

text \<open>The outputs of the four commands on a small text file.\<close>

definition sampleCommands :: "string list \<Rightarrow> string \<times> error option" where
  "sampleCommands args =
     (case args of
        [] \<Rightarrow> ([], Some (ErrorString ''exec: no command''))
      | cmd # _ \<Rightarrow>
          if cmd = ''java'' then (''{}'', None)
          else if cmd = ''ssdeep'' then
            (''ssdeep,1.1--blocksize:hash:hash,filename\<newline>HASHVALUE,filename\<newline>'', None)
          else if cmd = ''trid'' then
            (''\<newline>TrID/32 - File Identifier v2.24\<newline>Definitions found:  9999\<newline>Analyzing...\<newline>\<newline>Collecting data from file: filename\<newline> 90.0% match\<newline>'',
             None)
          else (''FileSize: 10 kB\<newline>'', None))"

text \<open>
  The first call of each detection function fails with an error that is not the
  cancellation, before the deadline; the later ones succeed.
\<close>

definition transientEnv :: environment where
  "transientEnv =
     \<lparr>magicmime = (\<lambda>p n.
        if n = 0 then
          \<lparr>result = ([], Some (ErrorString ''transient'')), selected = Received,
           deadlinePassed = False\<rparr>
        else
          \<lparr>result = (case p of MimeProbe \<Rightarrow> ''text/plain'' | DescriptionProbe \<Rightarrow> ''ASCII text'',
                     None),
           selected = Received, deadlinePassed = False\<rparr>),
      runCommand = sampleCommands,
      notExist = (\<lambda>path. None),
      template = (\<lambda>fileInfo. []),
      tempFile = Inr ''/malware/web_1'',
      readAllErr = None, writeErr = None, closeErr = None, encodeErr = None\<rparr>"

text \<open>
  The first call of each detection function succeeds; during every later one the deadline
  passes before the detection returns.
\<close>

definition expiringEnv :: environment where
  "expiringEnv =
     \<lparr>magicmime = (\<lambda>p n.
        if n = 0 then
          \<lparr>result = (case p of MimeProbe \<Rightarrow> ''text/plain'' | DescriptionProbe \<Rightarrow> ''ASCII text'',
                     None),
           selected = Received, deadlinePassed = False\<rparr>
        else
          \<lparr>result = (case p of MimeProbe \<Rightarrow> ''application/zip''
                     | DescriptionProbe \<Rightarrow> ''Zip archive data'', None),
           selected = CtxDone, deadlinePassed = True\<rparr>),
      runCommand = sampleCommands,
      notExist = (\<lambda>path. None),
      template = (\<lambda>fileInfo. []),
      tempFile = Inr ''/malware/web_2'',
      readAllErr = None, writeErr = None, closeErr = None, encodeErr = None\<rparr>"

definition emptyResponse :: ResponseWriter where
  "emptyResponse = \<lparr>status = None, Header = Map.empty, body = []\<rparr>"

section \<open>Facts about the library functions\<close>

declare Split.simps [simp del]
declare stripPrefixes.simps [simp del]
declare FindAll.simps [simp del]

lemma Split_not_Nil: "Split s sep \<noteq> []"
  by (subst Split.simps) (simp split: list.split)

lemma dropWhile_Nil_count: "dropWhile (\<lambda>c. c \<noteq> sep) s = [] \<Longrightarrow> count_list s sep = 0"
  by (induction s) (auto split: if_splits)

lemma dropWhile_Cons_count:
  "dropWhile (\<lambda>c. c \<noteq> sep) s = x # rest \<Longrightarrow> x = sep \<and> count_list s sep = Suc (count_list rest sep)"
  by (induction s) (auto split: if_splits)

lemma Split_Nil_case: "dropWhile (\<lambda>c. c \<noteq> sep) s = [] \<Longrightarrow> Split s sep = [s]"
  by (subst Split.simps) (simp only: list.case)

lemma Split_Cons_case:
  "dropWhile (\<lambda>c. c \<noteq> sep) s = x # rest \<Longrightarrow>
   Split s sep = takeWhile (\<lambda>c. c \<noteq> sep) s # Split rest sep"
  by (subst Split.simps) (simp only: list.case)

lemma length_Split: "length (Split s sep) = Suc (count_list s sep)"
proof (induction s sep rule: Split.induct)
  case (1 s sep)
  show ?case
  proof (cases "dropWhile (\<lambda>c. c \<noteq> sep) s")
    case Nil
    then show ?thesis
      using Split_Nil_case [OF Nil] dropWhile_Nil_count [OF Nil] by simp
  next
    case (Cons x rest)
    with 1 have "length (Split rest sep) = Suc (count_list rest sep)" by simp
    then show ?thesis
      using Split_Cons_case [OF Cons] dropWhile_Cons_count [OF Cons] by simp
  qed
qed

lemma Split_no_sep: "count_list s sep = 0 \<Longrightarrow> Split s sep = [s]"
proof -
  assume "count_list s sep = 0"
  then have "dropWhile (\<lambda>c. c \<noteq> sep) s = []"
    by (induction s) (auto split: if_splits)
  then show ?thesis by (rule Split_Nil_case)
qed

lemma Split_one_sep:
  assumes "count_list s sep = 1"
  shows "Split s sep = [takeWhile (\<lambda>c. c \<noteq> sep) s, drop 1 (dropWhile (\<lambda>c. c \<noteq> sep) s)]"
proof (cases "dropWhile (\<lambda>c. c \<noteq> sep) s")
  case Nil
  then show ?thesis using assms dropWhile_Nil_count [OF Nil] by simp
next
  case (Cons x rest)
  then have "count_list rest sep = 0"
    using assms dropWhile_Cons_count [OF Cons] by simp
  then have "Split rest sep = [rest]" by (rule Split_no_sep)
  then show ?thesis using Split_Cons_case [OF Cons] Cons by simp
qed

lemma tridLoop_eq: "tridLoop keepLines lines = keepLines @ filter (\<lambda>l. l \<noteq> []) (map TrimSpace lines)"
  by (induction lines arbitrary: keepLines) auto

lemma StringInSlice_set: "StringInSlice a list \<longleftrightarrow> a \<in> set list"
  by (induction list) auto

lemma SliceContainsString_iff: "SliceContainsString a list \<longleftrightarrow> (\<exists>b\<in>set list. Contains b a)"
  by (induction list) auto

lemmas go_eval =
  ParseExiftoolOutput_def ParseSsdeepOutput_def ParseTRiDOutput_def
  Split.simps HasPrefix_def index_def sliceFrom_def TrimSpace_def stripPrefixes.simps
  spaceEncodings_def CamelCase_def FindAll.simps isAlnum_def toUpper_def ignoreTags_def

section \<open>Facts about the parsers\<close>

lemma exifLoop_step:
  "exifLoop datas (line # lines) =
     (case Split line CHR '':'' of
        [k, v] \<Rightarrow>
          if TrimSpace k \<in> set ignoreTags then exifLoop datas lines
          else exifLoop (datas(TrimSpace (CamelCase k) \<mapsto> TrimSpace v)) lines
      | _ \<Rightarrow> exifLoop datas lines)"
  by (simp add: Let_def index_def StringInSlice_set split: list.split)

lemma exifLoop_total: "\<exists>m. exifLoop datas lines = Inr m"
proof (induction lines arbitrary: datas)
  case Nil
  show ?case by simp
next
  case (Cons line lines)
  show ?case
    unfolding exifLoop_step using Cons.IH by (simp split: list.split)
qed

lemma ParseExiftoolOutput_total: "\<exists>m. ParseExiftoolOutput exifout err = Inr m"
  using exifLoop_total by (simp add: ParseExiftoolOutput_def Let_def split: option.split)

lemma ParseSsdeepOutput_panics_iff:
  "ParseSsdeepOutput ssdout None = Inl p \<longleftrightarrow>
     p = IndexOutOfRange
     \<and> \<not> SliceContainsString ''No such file or directory'' (Split ssdout CHR 0x0A)
     \<and> count_list ssdout CHR 0x0A = 0"
proof -
  have "length (Split l CHR '','') \<noteq> 0" for l
    by (simp add: Split_not_Nil)
  then show ?thesis
    by (auto simp: ParseSsdeepOutput_def Let_def index_def length_Split split: sum.splits)
qed

lemma ParseTRiDOutput_panics_iff:
  "ParseTRiDOutput tridout None = Inl p \<longleftrightarrow>
     p = SliceBoundsOutOfRange
     \<and> \<not> SliceContainsString ''Error: found no file(s) to analyze!'' (Split tridout CHR 0x0A)
     \<and> count_list tridout CHR 0x0A < 5"
  by (auto simp: ParseTRiDOutput_def Let_def sliceFrom_def length_Split split: sum.splits)

lemma Split_two_iff:
  "length (Split line sep) = 2 \<longleftrightarrow> count_list line sep = 1"
  by (simp add: length_Split)

lemma exifLoop_line:
  "exifLoop datas (line # lines) =
     exifLoop
       (if count_list line CHR '':'' = 1 \<and> TrimSpace (exifKey line) \<notin> set ignoreTags
        then datas(TrimSpace (CamelCase (exifKey line)) \<mapsto> TrimSpace (exifValue line))
        else datas)
       lines"
proof (cases "count_list line CHR '':'' = 1")
  case True
  then show ?thesis
    unfolding exifLoop_step by (simp add: Split_one_sep exifKey_def exifValue_def)
next
  case False
  then have "length (Split line CHR '':'') \<noteq> 2"
    by (simp add: length_Split)
  then show ?thesis
    using False by (simp add: Let_def)
qed

lemma exifLoop_fold:
  "exifLoop datas lines =
     Inr (fold (\<lambda>line datas.
                  if count_list line CHR '':'' = 1 \<and> TrimSpace (exifKey line) \<notin> set ignoreTags
                  then datas(TrimSpace (CamelCase (exifKey line)) \<mapsto> TrimSpace (exifValue line))
                  else datas)
            lines datas)"
proof (induction lines arbitrary: datas)
  case Nil
  show ?case by simp
next
  case (Cons line lines)
  show ?case
    by (subst exifLoop_line) (simp add: Cons.IH)
qed

lemma exifLoop_entries:
  "exifLoop datas lines = Inr m \<Longrightarrow> m key = Some val \<Longrightarrow>
   datas key = Some val
   \<or> (\<exists>line\<in>set lines. \<exists>k v. Split line CHR '':'' = [k, v] \<and> TrimSpace k \<notin> set ignoreTags
         \<and> key = TrimSpace (CamelCase k) \<and> val = TrimSpace v)"
proof (induction lines arbitrary: datas)
  case Nil
  then show ?case by simp
next
  case (Cons line lines)
  show ?case
  proof (cases "\<exists>k v. Split line CHR '':'' = [k, v] \<and> TrimSpace k \<notin> set ignoreTags")
    case True
    then obtain k v where kv: "Split line CHR '':'' = [k, v]" "TrimSpace k \<notin> set ignoreTags"
      by blast
    then have "exifLoop (datas(TrimSpace (CamelCase k) \<mapsto> TrimSpace v)) lines = Inr m"
      using Cons.prems(1) unfolding exifLoop_step by simp
    from Cons.IH [OF this Cons.prems(2)] kv show ?thesis
      by (auto split: if_splits)
  next
    case False
    then have "exifLoop datas lines = Inr m"
      using Cons.prems(1) unfolding exifLoop_step by (auto split: list.splits if_splits)
    from Cons.IH [OF this Cons.prems(2)] show ?thesis by auto
  qed
qed

section \<open>Facts about the steps of a call\<close>

lemma caller_cases:
  obtains "pc = AtGo" | "pc = AtSelect" | "pc = AtWait"
  | r where "pc = Returned CtxDone r" | r where "pc = Returned Received r"
proof (cases pc)
  case (Returned sel r)
  then show ?thesis using that by (cases sel) auto
qed (use that in auto)

lemma callerSteps_cases:
  assumes step: "c' \<in> set (callerSteps p c)"
  obtains
    (spawn) "callerPc c = AtGo" "c' = c\<lparr>callerPc := AtSelect, workerPc := AtOpen\<rparr>"
  | (expired) "callerPc c = AtSelect" "ctxErr c \<noteq> None" "c' = c\<lparr>callerPc := AtWait\<rparr>"
  | (recv) ok where "callerPc c = AtSelect" "chan c = Some ok"
      "c' = c\<lparr>chan := None, callerPc := Returned Received (fst (received p ok (holder c))),
               holder := snd (received p ok (holder c))\<rparr>"
  | (waited) ok where "callerPc c = AtWait" "chan c = Some ok"
      "c' = c\<lparr>chan := None, callerPc := Returned CtxDone (ctxErr c)\<rparr>"
proof (cases "callerPc c")
  case AtGo
  with step have "c' = c\<lparr>callerPc := AtSelect, workerPc := AtOpen\<rparr>"
    by (simp add: callerSteps_def)
  with AtGo show ?thesis by (rule spawn)
next
  case AtSelect
  with step have
    "c' \<in> set (if ctxErr c \<noteq> None then [c\<lparr>callerPc := AtWait\<rparr>] else [])
     \<or> c' \<in> set (case chan c of
                    None \<Rightarrow> []
                  | Some ok \<Rightarrow>
                      [c\<lparr>chan := None,
                         callerPc := Returned Received (fst (received p ok (holder c))),
                         holder := snd (received p ok (holder c))\<rparr>])"
    by (simp add: callerSteps_def)
  then show ?thesis
  proof (elim disjE)
    assume "c' \<in> set (if ctxErr c \<noteq> None then [c\<lparr>callerPc := AtWait\<rparr>] else [])"
    then have "ctxErr c \<noteq> None" and "c' = c\<lparr>callerPc := AtWait\<rparr>"
      by (simp_all split: if_splits)
    with AtSelect show ?thesis by (rule expired)
  next
    assume b: "c' \<in> set (case chan c of
                    None \<Rightarrow> []
                  | Some ok \<Rightarrow>
                      [c\<lparr>chan := None,
                         callerPc := Returned Received (fst (received p ok (holder c))),
                         holder := snd (received p ok (holder c))\<rparr>])"
    then obtain ok where ok: "chan c = Some ok"
      by (cases "chan c") simp_all
    with b have "c' = c\<lparr>chan := None,
                         callerPc := Returned Received (fst (received p ok (holder c))),
                         holder := snd (received p ok (holder c))\<rparr>"
      by simp
    with AtSelect ok show ?thesis by (rule recv)
  qed
next
  case AtWait
  with step have b: "c' \<in> set (case chan c of
                    None \<Rightarrow> []
                  | Some ok \<Rightarrow> [c\<lparr>chan := None, callerPc := Returned CtxDone (ctxErr c)\<rparr>])"
    by (simp add: callerSteps_def)
  then obtain ok where ok: "chan c = Some ok"
    by (cases "chan c") simp_all
  with b have "c' = c\<lparr>chan := None, callerPc := Returned CtxDone (ctxErr c)\<rparr>"
    by simp
  with AtWait ok show ?thesis by (rule waited)
next
  case (Returned sel r)
  with step show ?thesis by (simp add: callerSteps_def)
qed

lemma consistent_start: "consistent p lib ctx0 f (start ctx0 f)"
  by (simp add: consistent_def start_def)

lemma consistent_timer:
  "consistent p lib ctx0 f c \<Longrightarrow> \<not> exited c \<Longrightarrow> c' \<in> set (timerSteps c) \<Longrightarrow>
   consistent p lib ctx0 f c'"
  by (cases rule: caller_cases [of "callerPc c"])
     (simp_all add: consistent_def timerSteps_def split: if_splits)

lemma consistent_worker:
  "consistent p lib ctx0 f c \<Longrightarrow> \<not> exited c \<Longrightarrow> c' \<in> set (workerSteps lib c) \<Longrightarrow>
   consistent p lib ctx0 f c'"
  by (cases rule: caller_cases [of "callerPc c"]; cases "workerPc c")
     (simp_all add: consistent_def workerSteps_def split: option.splits)

lemma consistent_caller:
  assumes inv: "consistent p lib ctx0 f c" and "\<not> exited c"
    and step: "c' \<in> set (callerSteps p c)"
  shows "consistent p lib ctx0 f c'"
  using step
proof (cases rule: callerSteps_cases)
  case spawn
  moreover from inv spawn(1) have "workerPc c = NotStarted"
    by (simp add: consistent_def)
  ultimately show ?thesis
    using inv by (simp add: consistent_def)
next
  case expired
  with inv show ?thesis by (simp add: consistent_def)
next
  case (recv ok)
  with inv have "sent (workerPc c)" and "ok = typeByFile lib" and "holder c = f"
    by (simp_all add: consistent_def split: if_splits)
  with inv recv show ?thesis by (simp add: consistent_def)
next
  case (waited ok)
  with inv have "sent (workerPc c)"
    by (simp add: consistent_def split: if_splits)
  with inv waited show ?thesis by (simp add: consistent_def)
qed

lemma consistent_step:
  "consistent p lib ctx0 f c \<Longrightarrow> c' \<in> set (steps p lib c) \<Longrightarrow> consistent p lib ctx0 f c'"
  using consistent_caller [of p lib ctx0 f c c'] consistent_worker [of p lib ctx0 f c c']
    consistent_timer [of p lib ctx0 f c c']
  by (cases "exited c") (auto simp: steps_def)

lemma reachable_consistent:
  "reachable p lib (start ctx0 f) c \<Longrightarrow> consistent p lib ctx0 f c"
proof (induction rule: reachable.induct)
  case reachable_start
  show ?case by (rule consistent_start)
next
  case (reachable_step c c')
  then show ?case by (blast intro: consistent_step)
qed







text \<open>
  The deferred \<open>Close\<close> runs after the send, so the caller can return while the handle is
  still open: the run below ends with the caller returned and the goroutine at its
  \<open>Close\<close>, which is its next and last step.
\<close>

lemma caller_returns_before_Close:
  "run MimeProbe \<lparr>openErr = None, typeByFile = (''text/plain'', None)\<rparr> [0, 0, 1, 0, 0, 0, 0]
     (start None zeroFileInfo)
     = Some \<lparr>callerPc = Returned CtxDone (Some DeadlineExceeded), workerPc = AtClose,
             chan = None, ctxErr = Some DeadlineExceeded, opens = 1, closes = 0,
             holder = zeroFileInfo, exited = False\<rparr>"
  by (simp add: steps_def callerSteps_def workerSteps_def timerSteps_def start_def)

section \<open>Facts about the two scans\<close>

lemma magicCall_calls: "calls (snd (magicCall p env st)) = calls st @ [TypeByFile p]"
  by (simp add: magicCall_def Let_def split: selectCase.split)

lemma magicCall_cancelled:
  assumes "selected (magicmime env p (attempts p st)) = CtxDone"
  shows "fst (magicCall p env st) = ctx (snd (magicCall p env st))"
    and "ctx (snd (magicCall p env st)) \<noteq> None"
    and "fi (snd (magicCall p env st)) = fi st"
  using assms by (simp_all add: magicCall_def Let_def elapse_def split: option.split)

lemma magicCall_received:
  assumes "selected (magicmime env p (attempts p st)) = Received"
  shows "fst (magicCall p env st) = snd (result (magicmime env p (attempts p st)))"
    and "fi (snd (magicCall p env st))
           = assign p (case snd (result (magicmime env p (attempts p st))) of
                         None \<Rightarrow> fst (result (magicmime env p (attempts p st)))
                       | Some e \<Rightarrow> Error e)
               (fi st)"
  using assms by (simp_all add: magicCall_def Let_def received_def split: option.split)

lemma magicCall_ctx_monotone:
  "ctx st \<noteq> None \<Longrightarrow> ctx (snd (magicCall p env st)) = ctx st"
  by (auto simp: magicCall_def Let_def elapse_def split: selectCase.split)

lemma magicCall_cancel_error:
  "fst (magicCall p env st) = Some e \<Longrightarrow> selected (magicmime env p (attempts p st)) = CtxDone \<Longrightarrow>
   ctx (snd (magicCall p env st)) = Some e"
  by (simp add: magicCall_def Let_def)


text \<open>
  The function of the call agrees with its steps: a configuration in which the caller has
  returned gives the error and the \<open>fi\<close> that \<open>magicCall\<close> computes from the detection
  result, the case of the \<open>select\<close> that ran, and whether the deadline has passed.
\<close>

lemma magicCall_agrees_with_steps:
  assumes r: "reachable p lib (start (ctx st) (fi st)) c"
    and ret: "callerPc c = Returned sel err"
    and ev: "magicmime env p (attempts p st)
               = \<lparr>result = typeByFile lib, selected = sel, deadlinePassed = (ctxErr c \<noteq> None)\<rparr>"
  shows "fst (magicCall p env st) = err \<and> fi (snd (magicCall p env st)) = holder c
         \<and> ctx (snd (magicCall p env st)) = ctxErr c"
proof -
  from r have inv: "consistent p lib (ctx st) (fi st) c"
    by (rule reachable_consistent)
  show ?thesis
  proof (cases sel)
    case CtxDone
    with inv ret ev show ?thesis
      by (auto simp: consistent_def magicCall_def Let_def elapse_def split: option.splits)
  next
    case Received
    with inv ret ev show ?thesis
      by (auto simp: consistent_def magicCall_def Let_def elapse_def split: option.splits)
  qed
qed

lemma RunCommand_simps [simp]:
  "fst (RunCommand env args st) = runCommand env args"
  "fi (snd (RunCommand env args st)) = fi st"
  "ctx (snd (RunCommand env args st)) = ctx st"
  "calls (snd (RunCommand env args st)) = calls st @ [Run args]"
  by (simp_all add: RunCommand_def)

lemma assemble_report:
  assumes "assemble env path apkJSON st = (Inr fileInfo, st')"
  shows "Magic fileInfo = Magic (fi st)" and "APKFile fileInfo = apkJSON"
    and "fi st' = fi st"
    and "calls st' = calls st @ [Run [''ssdeep'', path], Run [''trid'', path], Run [''exiftool'', path]]"
  using assms
  by (auto simp: assemble_def RunCommand_def Let_def split: sum.splits prod.splits)

lemma sample_ssdeep:
  "ParseSsdeepOutput (fst (sampleCommands [''ssdeep'', path]))
     (snd (sampleCommands [''ssdeep'', path])) = Inr ''HASHVALUE''"
  by (simp add: sampleCommands_def go_eval)

lemma sample_trid:
  "ParseTRiDOutput (fst (sampleCommands [''trid'', path]))
     (snd (sampleCommands [''trid'', path])) = Inr [''90.0% match'']"
  by (simp add: sampleCommands_def go_eval)

lemma sample_exiftool:
  "ParseExiftoolOutput (fst (sampleCommands [''exiftool'', path]))
     (snd (sampleCommands [''exiftool'', path])) = Inr [''FileSize'' \<mapsto> ''10 kB'']"
  by (simp add: sampleCommands_def go_eval)

lemma assemble_attempts: "attempts p (snd (assemble env path apkJSON st)) = attempts p st"
  by (auto simp: assemble_def RunCommand_def attempts_def Let_def split: sum.splits prod.splits)

lemma magicCall_attempts:
  "attempts q (snd (magicCall p env st)) = attempts q st + (if p = q then 1 else 0)"
  by (simp add: attempts_def magicCall_calls)

lemma attempts_ctx [simp]: "attempts p (st\<lparr>ctx := e\<rparr>) = attempts p st"
  by (simp add: attempts_def)

lemma gather_attempts: "attempts p (snd (gather env path st)) = attempts p st"
proof -
  have "attempts p (snd (RunCommand env args st)) = attempts p st" for args
    by (simp add: attempts_def)
  then show ?thesis
    by (simp add: gather_def Let_def case_prod_beta assemble_attempts
          split: option.split sum.split)
qed

lemma gather_report:
  assumes "gather env path st = (Report fileInfo, st')"
  shows "Magic fileInfo = Magic (fi st)" and "fi st' = fi st"
proof -
  let ?apk = "runCommand env [''java'', ''-jar'', ''apkfile.jar'', path]"
  let ?s1 = "snd (RunCommand env [''java'', ''-jar'', ''apkfile.jar'', path] st)"
  from assms have "fst (assemble env path (fst ?apk) ?s1) = Inr fileInfo"
    and "snd (assemble env path (fst ?apk) ?s1) = st'"
    by (auto simp: gather_def Let_def case_prod_beta split: option.splits sum.splits)
  then have a: "assemble env path (fst ?apk) ?s1 = (Inr fileInfo, st')"
    by (simp add: prod_eq_iff)
  from assemble_report(1,3) [OF a] show "Magic fileInfo = Magic (fi st)" and "fi st' = fi st"
    by simp_all
qed

text \<open>
  The detection of the command line calls each detection function once, and once more
  exactly when the first call returned an error and \<open>ctx.Err()\<close> is still \<open>nil\<close>; so it is
  not called again after a cancellation.
\<close>

lemma runLibmagic_attempts:
  "attempts MimeProbe (runLibmagic env st) =
     attempts MimeProbe st
     + (if fst (GetFileMimeType env st) \<noteq> None \<and> ctx (snd (GetFileMimeType env st)) = None
        then 2 else 1)"
  by (simp add: runLibmagic_def GetFileMimeType_def GetFileDescription_def Let_def
        case_prod_beta magicCall_attempts)

lemma scan_attempts:
  "attempts MimeProbe (snd (scan env path st)) =
     attempts MimeProbe st
     + (if fst (GetFileMimeType env st) \<noteq> None \<and> ctx (snd (GetFileMimeType env st)) = None
        then 2 else 1)"
proof -
  have "snd (scan env path st) = snd (gather env path (runLibmagic env st))"
    by (simp add: scan_def case_prod_beta split: outcome.split)
  then show ?thesis
    by (simp only: gather_attempts runLibmagic_attempts)
qed

lemma scan_no_retry_after_cancellation:
  assumes "selected (magicmime env MimeProbe (attempts MimeProbe st)) = CtxDone"
  shows "attempts MimeProbe (snd (scan env path st)) = attempts MimeProbe st + 1"
  using magicCall_cancelled(2) [OF assms]
  by (simp add: scan_attempts GetFileMimeType_def)

text \<open>The HTTP handler calls each detection function once, whatever the call returns.\<close>

lemma webAvScanRest_attempts:
  assumes "tempFile env = Inr path" and "readAllErr env = None" and "writeErr env = None"
    and "closeErr env = None"
  shows "attempts p (snd (snd (webAvScanRest env (Some data) (Some filename) w st)))
           = attempts p st + 1"
proof -
  let ?s2 = "snd (GetFileDescription env (snd (GetFileMimeType env (st\<lparr>ctx := None\<rparr>))))"
  have a: "attempts p ?s2 = attempts p st + 1"
    by (cases p) (simp_all add: GetFileMimeType_def GetFileDescription_def magicCall_attempts)
  from assms
  have "snd (snd (webAvScanRest env (Some data) (Some filename) w st))
          = snd (gather env path ?s2)"
    by (simp add: webAvScanRest_def Let_def case_prod_beta split: outcome.split option.split)
  then show ?thesis
    by (simp only: gather_attempts a)
qed

lemma scan_report:
  assumes "scan env path st = (Report fileInfo, st')"
  shows "Magic fileInfo = Magic (fi st')" and "fi st' = fi (runLibmagic env st)"
proof -
  from assms obtain r where g: "gather env path (runLibmagic env st) = (Report r, st')"
    and f: "fileInfo = r\<lparr>MarkDown := template env r\<rparr>"
    by (auto simp: scan_def split: prod.splits outcome.splits)
  from gather_report [OF g] f show "Magic fileInfo = Magic (fi st')"
    and "fi st' = fi (runLibmagic env st)"
    by simp_all
qed

lemma webAvScanRest_report:
  assumes "webAvScanRest env fl hdr w st = (Report fileInfo, w', st')"
  shows "Magic fileInfo = Magic (fi st')"
    and "fi st' = fi (snd (GetFileDescription env (snd (GetFileMimeType env (st\<lparr>ctx := None\<rparr>)))))"
proof -
  let ?s2 = "snd (GetFileDescription env (snd (GetFileMimeType env (st\<lparr>ctx := None\<rparr>))))"
  from assms obtain path where "gather env path ?s2 = (Report fileInfo, st')"
    by (auto simp: webAvScanRest_def Let_def case_prod_beta prod_eq_iff
          split: option.splits sum.splits outcome.splits)
  from gather_report [OF this] show "Magic fileInfo = Magic (fi st')" and "fi st' = fi ?s2"
    by simp_all
qed

lemma webAvScan_report:
  assumes "webAvScan env r w st = (Report fileInfo, w', st')"
  shows "Magic fileInfo = Magic (fi st')"
    and "fi st' = fi (snd (GetFileDescription env (snd (GetFileMimeType env (st\<lparr>ctx := None\<rparr>)))))"
proof -
  from assms obtain fl hdr w0
    where "webAvScanRest env fl hdr w0 st = (Report fileInfo, w', st')"
    by (auto simp: webAvScan_def split: sum.splits prod.splits)
  from webAvScanRest_report [OF this]
  show "Magic fileInfo = Magic (fi st')"
    and "fi st' = fi (snd (GetFileDescription env (snd (GetFileMimeType env (st\<lparr>ctx := None\<rparr>)))))"
    by simp_all
qed

text \<open>
  \<open>app.Action\<close> with a path that exists: with \<open>--mime\<close> it calls \<open>GetFileMimeType\<close> once and
  prints \<open>fi.Magic.Mime\<close>; without, it is the scan above under a new context.
\<close>

lemma Action_mime:
  assumes "notExist env path = None"
  shows "attempts MimeProbe (snd (Action env True (path # args) st)) = attempts MimeProbe st + 1"
    and "fst (Action env True (path # args) st)
           = Printed (Mime (Magic (fi (snd (GetFileMimeType env (st\<lparr>ctx := None\<rparr>))))))"
  using assms
  by (simp_all add: Action_def Let_def case_prod_beta GetFileMimeType_def magicCall_attempts)

lemma Action_scan:
  "notExist env path = None \<Longrightarrow>
   Action env False (path # args) st = scan env path (st\<lparr>ctx := None\<rparr>)"
  by (simp add: Action_def)

section \<open>Claims about the parsers\<close>

text \<open>
  C1. The claim is that, for every raw output paired with a \<open>nil\<close> error, each of the three
  parsers returns a result and never faults, in particular on empty and on truncated output.
  \<open>ParseExiftoolOutput\<close> does (\<open>ParseExiftoolOutput_total\<close>). \<open>ParseSsdeepOutput\<close> reads
  \<open>lines[1]\<close> and \<open>ParseTRiDOutput\<close> slices \<open>lines[6:]\<close> without looking at the number of
  lines: the first panics exactly on an output with no newline that lacks the diagnostic
  (\<open>ParseSsdeepOutput_panics_iff\<close>), the second exactly on an output with fewer than five
  newlines that lacks the diagnostic (\<open>ParseTRiDOutput_panics_iff\<close>). The theorem evaluates
  both on the empty output and on an output cut after its first lines.
\<close>

theorem parsers_fault_on_truncated_output:
  "ParseSsdeepOutput '''' None = Inl IndexOutOfRange
   \<and> ParseSsdeepOutput ''ssdeep,1.1--blocksize:hash:hash,filename'' None = Inl IndexOutOfRange
   \<and> ParseTRiDOutput '''' None = Inl SliceBoundsOutOfRange
   \<and> ParseTRiDOutput ''TrID/32 - File Identifier v2.24\<newline>\<newline>Collecting data'' None
       = Inl SliceBoundsOutOfRange"
  by (simp add: go_eval)

text \<open>
  C4. The claim is that a line is split at its first colon only, so that a line whose value
  has colons of its own still gives an entry. The source splits at every colon and skips a
  line that does not give exactly two parts: a line gives an entry exactly when it has one
  colon and its trimmed key is not in the deny list; the key of the entry is the text
  before the colon in camel case, trimmed, and its value the trimmed text after the colon.
  A line with no colon, or with two or more (a time stamp), is skipped.
\<close>

theorem ParseExiftoolOutput_single_colon_rule:
  "ParseExiftoolOutput exifout None =
     Inr (if SliceContainsString ''File not found'' (Split exifout CHR 0x0A) then Map.empty
          else fold (\<lambda>line datas.
                  if count_list line CHR '':'' = 1 \<and> TrimSpace (exifKey line) \<notin> set ignoreTags
                  then datas(TrimSpace (CamelCase (exifKey line)) \<mapsto> TrimSpace (exifValue line))
                  else datas)
                 (Split exifout CHR 0x0A) Map.empty)"
  by (simp add: ParseExiftoolOutput_def Let_def exifLoop_fold)

text \<open>
  The line of a time stamp, as exiftool prints it, gives no entry at all, and so not the
  entry the claim expects.
\<close>

theorem ParseExiftoolOutput_timestamp_counterexample:
  "ParseExiftoolOutput ''Create Date                     : 2017:11:30 10:15:00'' None = Inr Map.empty
   \<and> ParseExiftoolOutput ''Create Date                     : 2017:11:30 10:15:00'' None
       \<noteq> Inr [''CreateDate'' \<mapsto> ''2017:11:30 10:15:00'']"
proof -
  have a: "ParseExiftoolOutput ''Create Date                     : 2017:11:30 10:15:00'' None
             = Inr Map.empty"
    by (simp add: go_eval)
  have b: "Map.empty \<noteq> [''CreateDate'' \<mapsto> ''2017:11:30 10:15:00'']"
    by (rule not_sym) simp
  show ?thesis
    unfolding a using b by simp
qed

text \<open>
  C6. When the invocation succeeded, no line of the output contains the diagnostic of TRiD
  for no files, and the output has at least one line after the six lines of the banner,
  \<open>ParseTRiDOutput\<close> returns the lines that follow the first six, each trimmed, without the
  lines that are empty once trimmed, in the order of the output.
\<close>

theorem ParseTRiDOutput_keeps_ranked_lines:
  assumes "\<not> SliceContainsString ''Error: found no file(s) to analyze!'' (Split tridout CHR 0x0A)"
    and "6 < length (Split tridout CHR 0x0A)"
  shows "ParseTRiDOutput tridout None =
           Inr (filter (\<lambda>l. l \<noteq> []) (map TrimSpace (drop 6 (Split tridout CHR 0x0A))))"
  using assms by (simp add: ParseTRiDOutput_def Let_def sliceFrom_def tridLoop_eq)

theorem ParseTRiDOutput_keeps_ranked_lines_witness:
  "\<not> SliceContainsString ''Error: found no file(s) to analyze!''
       (Split ''h1\<newline>h2\<newline>h3\<newline>h4\<newline>h5\<newline>h6\<newline>\<newline> 90.0% match \<newline>10.0% other\<newline>'' CHR 0x0A)
   \<and> 6 < length (Split ''h1\<newline>h2\<newline>h3\<newline>h4\<newline>h5\<newline>h6\<newline>\<newline> 90.0% match \<newline>10.0% other\<newline>'' CHR 0x0A)
   \<and> ParseTRiDOutput ''h1\<newline>h2\<newline>h3\<newline>h4\<newline>h5\<newline>h6\<newline>\<newline> 90.0% match \<newline>10.0% other\<newline>'' None
       = Inr [''90.0% match'', ''10.0% other'']"
proof -
  let ?out = "''h1\<newline>h2\<newline>h3\<newline>h4\<newline>h5\<newline>h6\<newline>\<newline> 90.0% match \<newline>10.0% other\<newline>''"
  have a: "\<not> SliceContainsString ''Error: found no file(s) to analyze!'' (Split ?out CHR 0x0A)"
    by (simp add: Split.simps HasPrefix_def)
  have b: "6 < length (Split ?out CHR 0x0A)"
    by (simp add: Split.simps)
  have c: "filter (\<lambda>l. l \<noteq> []) (map TrimSpace (drop 6 (Split ?out CHR 0x0A)))
             = [''90.0% match'', ''10.0% other'']"
    by (simp add: Split.simps TrimSpace_def stripPrefixes.simps spaceEncodings_def HasPrefix_def)
  show ?thesis
    using a b ParseTRiDOutput_keeps_ranked_lines [OF a b] by (simp only: c simp_thms)
qed

text \<open>
  C7. Whatever the raw output, when the invocation error is not \<open>nil\<close> the fuzzy-hash parser
  returns the text of the error as the digest, the identification parser returns the
  one-element sequence holding that text, and the metadata parser returns the map with the
  single key \<open>error\<close> bound to that text; none of the three panics.
\<close>

theorem parsers_record_invocation_error:
  "ParseSsdeepOutput out (Some e) = Inr (Error e)
   \<and> ParseTRiDOutput out (Some e) = Inr [Error e]
   \<and> ParseExiftoolOutput out (Some e) = Inr [''error'' \<mapsto> Error e]
   \<and> dom [''error'' \<mapsto> Error e] = {''error''}"
  by (simp add: ParseSsdeepOutput_def ParseTRiDOutput_def ParseExiftoolOutput_def)

text \<open>
  C8. Every entry of the map \<open>ParseExiftoolOutput\<close> returns comes from a line of the output
  that splits into a key and a value and whose key, trimmed, is none of \<open>Directory\<close>,
  \<open>File Name\<close>, \<open>File Permissions\<close> and \<open>File Modification Date/Time\<close>: a line with one of
  these keys never gives an entry. In particular the output \<open>File Name: foo.exe\<close> gives the
  empty map.
\<close>

theorem ParseExiftoolOutput_drops_denied_keys:
  "(\<forall>m key val. ParseExiftoolOutput exifout None = Inr m \<longrightarrow> m key = Some val \<longrightarrow>
      (\<exists>line\<in>set (Split exifout CHR 0x0A). \<exists>k v.
          Split line CHR '':'' = [k, v]
          \<and> TrimSpace k \<notin> {''Directory'', ''File Name'', ''File Permissions'',
                            ''File Modification Date/Time''}
          \<and> key = TrimSpace (CamelCase k) \<and> val = TrimSpace v))
   \<and> ParseExiftoolOutput ''File Name: foo.exe'' None = Inr Map.empty"
proof -
  have "\<exists>line\<in>set (Split exifout CHR 0x0A). \<exists>k v.
          Split line CHR '':'' = [k, v] \<and> TrimSpace k \<notin> set ignoreTags
          \<and> key = TrimSpace (CamelCase k) \<and> val = TrimSpace v"
    if "ParseExiftoolOutput exifout None = Inr m" and "m key = Some val" for m key val
  proof (cases "SliceContainsString ''File not found'' (Split exifout CHR 0x0A)")
    case True
    with that show ?thesis by (auto simp: ParseExiftoolOutput_def)
  next
    case False
    with that have "exifLoop Map.empty (Split exifout CHR 0x0A) = Inr m"
      by (simp add: ParseExiftoolOutput_def)
    from exifLoop_entries [OF this that(2)] show ?thesis by simp
  qed
  moreover have "ParseExiftoolOutput ''File Name: foo.exe'' None = Inr Map.empty"
    by (simp add: go_eval)
  ultimately show ?thesis
    by (simp add: ignoreTags_def)
qed

theorem ParseExiftoolOutput_drops_denied_keys_witness:
  "ParseExiftoolOutput ''File Name: foo.exe\<newline>FileSize: 10 kB\<newline>'' None
     = Inr [''FileSize'' \<mapsto> ''10 kB'']
   \<and> (\<exists>line\<in>set (Split ''File Name: foo.exe\<newline>FileSize: 10 kB\<newline>'' CHR 0x0A). \<exists>k v.
          Split line CHR '':'' = [k, v]
          \<and> TrimSpace k \<notin> {''Directory'', ''File Name'', ''File Permissions'',
                            ''File Modification Date/Time''}
          \<and> ''FileSize'' = TrimSpace (CamelCase k) \<and> ''10 kB'' = TrimSpace v)"
proof -
  let ?out = "''File Name: foo.exe\<newline>FileSize: 10 kB\<newline>''"
  have a: "ParseExiftoolOutput ?out None = Inr [''FileSize'' \<mapsto> ''10 kB'']"
    by (simp add: go_eval)
  have b: "[''FileSize'' \<mapsto> ''10 kB''] ''FileSize'' = Some ''10 kB''"
    by simp
  from ParseExiftoolOutput_drops_denied_keys [of ?out] a b show ?thesis
    by blast
qed

section \<open>Claims about magic detection\<close>



section \<open>Claims about the two scans\<close>

text \<open>
  C3. The claim is that both scans, the action of the command line and the HTTP handler,
  make a failed detection call once more when the failure is not the cancellation. The
  action does (\<open>scan_attempts\<close>, \<open>scan_no_retry_after_cancellation\<close>); the handler calls
  \<open>GetFileMimeType\<close> and \<open>GetFileDescription\<close> once and drops their errors
  (\<open>webAvScanRest_attempts\<close>). The theorem runs both where the first call of each detection
  function fails with an error that is not the cancellation, before the deadline, and the
  second would succeed: the handler makes one call of each and reports the text of the
  error, the action makes two and reports the detected values.
\<close>

theorem webAvScan_does_not_retry:
  "attempts MimeProbe
     (snd (snd (webAvScan transientEnv \<lparr>FormFile = Inr (''hello'', ''hello.txt'')\<rparr> emptyResponse initial)))
     = 1
   \<and> attempts DescriptionProbe
     (snd (snd (webAvScan transientEnv \<lparr>FormFile = Inr (''hello'', ''hello.txt'')\<rparr> emptyResponse initial)))
     = 1
   \<and> fst (webAvScan transientEnv \<lparr>FormFile = Inr (''hello'', ''hello.txt'')\<rparr> emptyResponse initial)
     = Report \<lparr>Magic = \<lparr>Mime = ''transient'', Description = ''transient''\<rparr>,
               SSDeep = ''HASHVALUE'', TRiD = [''90.0% match''],
               Exiftool = [''FileSize'' \<mapsto> ''10 kB''], MarkDown = [], APKFile = ''{}''\<rparr>
   \<and> attempts MimeProbe (snd (scan transientEnv ''hello.txt'' initial)) = 2
   \<and> attempts DescriptionProbe (snd (scan transientEnv ''hello.txt'' initial)) = 2
   \<and> fst (scan transientEnv ''hello.txt'' initial)
     = Report \<lparr>Magic = \<lparr>Mime = ''text/plain'', Description = ''ASCII text''\<rparr>,
               SSDeep = ''HASHVALUE'', TRiD = [''90.0% match''],
               Exiftool = [''FileSize'' \<mapsto> ''10 kB''], MarkDown = [], APKFile = ''{}''\<rparr>"
proof -
  have g: "gather transientEnv path st =
             (Report \<lparr>Magic = Magic (fi st), SSDeep = ''HASHVALUE'', TRiD = [''90.0% match''],
                      Exiftool = [''FileSize'' \<mapsto> ''10 kB''], MarkDown = [], APKFile = ''{}''\<rparr>,
              st\<lparr>calls := calls st @ [Run [''java'', ''-jar'', ''apkfile.jar'', path],
                      Run [''ssdeep'', path], Run [''trid'', path], Run [''exiftool'', path]]\<rparr>)"
    for path st
    using sample_ssdeep [of path] sample_trid [of path] sample_exiftool [of path]
    by (simp add: gather_def assemble_def RunCommand_def Let_def transientEnv_def
          sampleCommands_def)
  have ev0: "magicmime transientEnv p 0
               = \<lparr>result = ([], Some (ErrorString ''transient'')), selected = Received,
                  deadlinePassed = False\<rparr>" for p
    by (simp add: transientEnv_def)
  have ev1: "magicmime transientEnv p (Suc 0)
               = \<lparr>result = (case p of MimeProbe \<Rightarrow> ''text/plain''
                            | DescriptionProbe \<Rightarrow> ''ASCII text'', None),
                  selected = Received, deadlinePassed = False\<rparr>" for p
    by (simp add: transientEnv_def)
  have env: "tempFile transientEnv = Inr ''/malware/web_1''" "readAllErr transientEnv = None"
    "writeErr transientEnv = None" "closeErr transientEnv = None"
    "encodeErr transientEnv = None" "template transientEnv = (\<lambda>fileInfo. [])"
    by (simp_all add: transientEnv_def)
  let ?s0 = "\<lparr>fi = zeroFileInfo, ctx = None, calls = []\<rparr>"
  let ?s1 = "\<lparr>fi = zeroFileInfo\<lparr>Magic := \<lparr>Mime = ''transient'', Description = []\<rparr>\<rparr>,
              ctx = None, calls = [TypeByFile MimeProbe]\<rparr>"
  let ?s2 = "\<lparr>fi = zeroFileInfo\<lparr>Magic := \<lparr>Mime = ''text/plain'', Description = []\<rparr>\<rparr>,
              ctx = None, calls = [TypeByFile MimeProbe, TypeByFile MimeProbe]\<rparr>"
  have m1: "GetFileMimeType transientEnv ?s0 = (Some (ErrorString ''transient''), ?s1)"
    by (simp add: GetFileMimeType_def magicCall_def attempts_def ev0 received_def elapse_def
          zeroFileInfo_def)
  have m2: "GetFileMimeType transientEnv ?s1 = (None, ?s2)"
    by (simp add: GetFileMimeType_def magicCall_def attempts_def ev1 received_def elapse_def
          zeroFileInfo_def)
  let ?web = "\<lparr>fi = zeroFileInfo\<lparr>Magic := \<lparr>Mime = ''transient'', Description = ''transient''\<rparr>\<rparr>,
              ctx = None, calls = [TypeByFile MimeProbe, TypeByFile DescriptionProbe]\<rparr>"
  have d1: "GetFileDescription transientEnv ?s1 = (Some (ErrorString ''transient''), ?web)"
    by (simp add: GetFileDescription_def magicCall_def attempts_def ev0 received_def elapse_def
          zeroFileInfo_def)
  let ?s3 = "\<lparr>fi = zeroFileInfo\<lparr>Magic := \<lparr>Mime = ''text/plain'', Description = ''transient''\<rparr>\<rparr>,
              ctx = None,
              calls = [TypeByFile MimeProbe, TypeByFile MimeProbe, TypeByFile DescriptionProbe]\<rparr>"
  let ?s4 = "\<lparr>fi = zeroFileInfo\<lparr>Magic := \<lparr>Mime = ''text/plain'', Description = ''ASCII text''\<rparr>\<rparr>,
              ctx = None,
              calls = [TypeByFile MimeProbe, TypeByFile MimeProbe, TypeByFile DescriptionProbe,
                       TypeByFile DescriptionProbe]\<rparr>"
  have d2: "GetFileDescription transientEnv ?s2 = (Some (ErrorString ''transient''), ?s3)"
    by (simp add: GetFileDescription_def magicCall_def attempts_def ev0 received_def elapse_def
          zeroFileInfo_def)
  have d3: "GetFileDescription transientEnv ?s3 = (None, ?s4)"
    by (simp add: GetFileDescription_def magicCall_def attempts_def ev1 received_def elapse_def
          zeroFileInfo_def)
  have r: "runLibmagic transientEnv ?s0 = ?s4"
    by (simp add: runLibmagic_def m1 m2 d2 d3)
  have w: "webAvScan transientEnv \<lparr>FormFile = Inr (''hello'', ''hello.txt'')\<rparr> emptyResponse initial
      = (Report \<lparr>Magic = \<lparr>Mime = ''transient'', Description = ''transient''\<rparr>,
               SSDeep = ''HASHVALUE'', TRiD = [''90.0% match''],
               Exiftool = [''FileSize'' \<mapsto> ''10 kB''], MarkDown = [], APKFile = ''{}''\<rparr>,
         Write (JSON \<lparr>Magic = \<lparr>Mime = ''transient'', Description = ''transient''\<rparr>,
               SSDeep = ''HASHVALUE'', TRiD = [''90.0% match''],
               Exiftool = [''FileSize'' \<mapsto> ''10 kB''], MarkDown = [], APKFile = ''{}''\<rparr>)
           (WriteHeader StatusOK
              (emptyResponse\<lparr>Header := [''Content-Type'' \<mapsto> ''application/json; charset=UTF-8'']\<rparr>)),
         \<lparr>fi = zeroFileInfo\<lparr>Magic := \<lparr>Mime = ''transient'', Description = ''transient''\<rparr>\<rparr>,
          ctx = None,
          calls = [TypeByFile MimeProbe, TypeByFile DescriptionProbe,
                   Run [''java'', ''-jar'', ''apkfile.jar'', ''/malware/web_1''],
                   Run [''ssdeep'', ''/malware/web_1''], Run [''trid'', ''/malware/web_1''],
                   Run [''exiftool'', ''/malware/web_1'']]\<rparr>)"
    by (simp add: webAvScan_def webAvScanRest_def env initial_def m1 d1 g emptyResponse_def)
  have s: "scan transientEnv ''hello.txt'' initial
      = (Report \<lparr>Magic = \<lparr>Mime = ''text/plain'', Description = ''ASCII text''\<rparr>,
               SSDeep = ''HASHVALUE'', TRiD = [''90.0% match''],
               Exiftool = [''FileSize'' \<mapsto> ''10 kB''], MarkDown = [], APKFile = ''{}''\<rparr>,
         \<lparr>fi = zeroFileInfo\<lparr>Magic := \<lparr>Mime = ''text/plain'', Description = ''ASCII text''\<rparr>\<rparr>,
          ctx = None,
          calls = [TypeByFile MimeProbe, TypeByFile MimeProbe,
                   TypeByFile DescriptionProbe, TypeByFile DescriptionProbe,
                   Run [''java'', ''-jar'', ''apkfile.jar'', ''hello.txt''],
                   Run [''ssdeep'', ''hello.txt''], Run [''trid'', ''hello.txt''],
                   Run [''exiftool'', ''hello.txt'']]\<rparr>)"
    by (simp add: scan_def initial_def r g env)
  show ?thesis
    by (simp add: w s attempts_def)
qed

text \<open>
  C5. The claim is that no component keeps state outside its call frame and that the
  detection hands its result to its caller by value. In the source the variable \<open>fi\<close> is
  declared once for the process: \<open>GetFileMimeType\<close> and \<open>GetFileDescription\<close> return only an
  error and store what they detect, or the text of the error, in \<open>fi.Magic\<close>; both scans
  then copy \<open>fi.Magic\<close>, as it stands, into the report. So the magic fields of a report are
  those of \<open>fi\<close> after the scan, for the scan of the command line and for the HTTP handler.
\<close>

theorem magic_result_passes_through_holder:
  "(selected (magicmime env MimeProbe (attempts MimeProbe st)) = Received \<longrightarrow>
      Mime (Magic (fi (snd (GetFileMimeType env st))))
        = (case snd (result (magicmime env MimeProbe (attempts MimeProbe st))) of
             None \<Rightarrow> fst (result (magicmime env MimeProbe (attempts MimeProbe st)))
           | Some e \<Rightarrow> Error e))
   \<and> (selected (magicmime env DescriptionProbe (attempts DescriptionProbe st)) = Received \<longrightarrow>
      Description (Magic (fi (snd (GetFileDescription env st))))
        = (case snd (result (magicmime env DescriptionProbe (attempts DescriptionProbe st))) of
             None \<Rightarrow> fst (result (magicmime env DescriptionProbe (attempts DescriptionProbe st)))
           | Some e \<Rightarrow> Error e))
   \<and> (\<forall>fileInfo st'. scan env path st = (Report fileInfo, st') \<longrightarrow>
          Magic fileInfo = Magic (fi st') \<and> fi st' = fi (runLibmagic env st))
   \<and> (\<forall>fileInfo w' st'. webAvScan env r w st = (Report fileInfo, w', st') \<longrightarrow>
          Magic fileInfo = Magic (fi st')
          \<and> fi st' = fi (snd (GetFileDescription env (snd (GetFileMimeType env (st\<lparr>ctx := None\<rparr>))))))"
proof -
  have a: "Mime (Magic (fi (snd (GetFileMimeType env st))))
        = (case snd (result (magicmime env MimeProbe (attempts MimeProbe st))) of
             None \<Rightarrow> fst (result (magicmime env MimeProbe (attempts MimeProbe st)))
           | Some e \<Rightarrow> Error e)"
    if "selected (magicmime env MimeProbe (attempts MimeProbe st)) = Received"
    using magicCall_received(2) [OF that] by (simp add: GetFileMimeType_def)
  have b: "Description (Magic (fi (snd (GetFileDescription env st))))
        = (case snd (result (magicmime env DescriptionProbe (attempts DescriptionProbe st))) of
             None \<Rightarrow> fst (result (magicmime env DescriptionProbe (attempts DescriptionProbe st)))
           | Some e \<Rightarrow> Error e)"
    if "selected (magicmime env DescriptionProbe (attempts DescriptionProbe st)) = Received"
    using magicCall_received(2) [OF that] by (simp add: GetFileDescription_def)
  have c: "Magic fileInfo = Magic (fi st') \<and> fi st' = fi (runLibmagic env st)"
    if "scan env path st = (Report fileInfo, st')" for fileInfo st'
    using scan_report [OF that] by simp
  have d: "Magic fileInfo = Magic (fi st')
          \<and> fi st' = fi (snd (GetFileDescription env (snd (GetFileMimeType env (st\<lparr>ctx := None\<rparr>)))))"
    if "webAvScan env r w st = (Report fileInfo, w', st')" for fileInfo w' st'
    using webAvScan_report [OF that] by simp
  from a b c d show ?thesis by blast
qed

text \<open>
  A first detection that succeeds: the function returns \<open>nil\<close> and nothing else, and the
  mime type it found is in \<open>fi\<close>, which was empty before the call.
\<close>

theorem magic_result_passes_through_holder_witness:
  "selected (magicmime expiringEnv MimeProbe (attempts MimeProbe initial)) = Received
   \<and> Mime (Magic (fi (snd (GetFileMimeType expiringEnv initial)))) = ''text/plain''"
proof -
  have s: "selected (magicmime expiringEnv MimeProbe (attempts MimeProbe initial)) = Received"
    by (simp add: expiringEnv_def attempts_def initial_def)
  have "(case snd (result (magicmime expiringEnv MimeProbe (attempts MimeProbe initial))) of
             None \<Rightarrow> fst (result (magicmime expiringEnv MimeProbe (attempts MimeProbe initial)))
           | Some e \<Rightarrow> Error e) = ''text/plain''"
    by (simp add: expiringEnv_def attempts_def initial_def)
  with s magic_result_passes_through_holder [of expiringEnv initial] show ?thesis
    by simp
qed

theorem magic_result_by_value_counterexample:
  "fst (GetFileMimeType expiringEnv initial) = None
   \<and> Mime (Magic (fi initial)) = []
   \<and> Mime (Magic (fi (snd (GetFileMimeType expiringEnv initial)))) = ''text/plain''
   \<and> fi (snd (GetFileMimeType expiringEnv initial)) \<noteq> fi initial"
proof -
  have a: "GetFileMimeType expiringEnv initial
      = (None, \<lparr>fi = zeroFileInfo\<lparr>Magic := \<lparr>Mime = ''text/plain'', Description = []\<rparr>\<rparr>,
                ctx = None, calls = [TypeByFile MimeProbe]\<rparr>)"
    by (simp add: GetFileMimeType_def magicCall_def attempts_def received_def elapse_def
          zeroFileInfo_def initial_def expiringEnv_def)
  show ?thesis
    by (simp add: a) (simp add: initial_def zeroFileInfo_def)
qed

text \<open>
  C9. When the request has no valid \<open>malware\<close> file field, the handler writes the status
  400 and its message and goes on: \<open>file\<close> is \<open>nil\<close>, and the handler ends in a panic on
  the \<open>nil\<close> handle instead of returning. Nothing else is written to the response, and no
  scan is made.
\<close>

theorem webAvScan_continues_after_bad_request:
  assumes "FormFile r = Inl err"
  shows "webAvScan env r w st
           = (Panicked NilPointerDereference,
              Write (Text ''Please supply a valid file to scan.\<newline>'') (WriteHeader StatusBadRequest w),
              st)
         \<and> (case status w of
               None \<Rightarrow> status (fst (snd (webAvScan env r w st))) = Some 400
             | Some code \<Rightarrow> status (fst (snd (webAvScan env r w st))) = Some code)"
  using assms
  by (simp add: webAvScan_def webAvScanRest_def Write_def WriteHeader_def StatusBadRequest_def
        Let_def split: option.split)

theorem webAvScan_continues_after_bad_request_witness:
  "FormFile \<lparr>FormFile = Inl (ErrorString ''http: no such file'')\<rparr>
     = Inl (ErrorString ''http: no such file'')
   \<and> webAvScan transientEnv \<lparr>FormFile = Inl (ErrorString ''http: no such file'')\<rparr>
       emptyResponse initial
     = (Panicked NilPointerDereference,
        \<lparr>status = Some 400, Header = Map.empty,
         body = [Text ''Please supply a valid file to scan.\<newline>'']\<rparr>,
        initial)"
proof -
  have a: "FormFile \<lparr>FormFile = Inl (ErrorString ''http: no such file'')\<rparr>
             = Inl (ErrorString ''http: no such file'')"
    by simp
  have b: "Write (Text ''Please supply a valid file to scan.\<newline>'')
             (WriteHeader StatusBadRequest emptyResponse)
           = \<lparr>status = Some 400, Header = Map.empty,
              body = [Text ''Please supply a valid file to scan.\<newline>'']\<rparr>"
    by (simp add: Write_def WriteHeader_def StatusBadRequest_def emptyResponse_def)
  from webAvScan_continues_after_bad_request [OF a, of transientEnv emptyResponse initial] a b
  show ?thesis by simp
qed



end
